theory Spec2Isabelle
  imports Complex_Main "HOL-Library.Log_Nat"
begin

section \<open>Strings\<close>

text \<open>
  A JavaScript string is a sequence of code units. Here a string is a \<^typ>\<open>string\<close>,
  a list of 8-bit characters read as the code units U+0000 to U+00FF; code units beyond
  that range are outside the model. Template literals are concatenations.
\<close>

text \<open>
  \<^verbatim>\<open>String.prototype.slice(start, end)\<close> for integer arguments: a negative index counts
  from the end of the string, every index is clamped to the string, and an omitted
  \<^verbatim>\<open>end\<close> is the length. It never throws.
\<close>

definition clamp_index :: "nat \<Rightarrow> int \<Rightarrow> nat" where
  "clamp_index len i = (if i < 0 then nat (max (int len + i) 0) else min (nat i) len)"

definition slice :: "string \<Rightarrow> int \<Rightarrow> int option \<Rightarrow> string" where
  "slice s start end' =
     (let len = length s;
          from = clamp_index len start;
          to = (case end' of None \<Rightarrow> len | Some e \<Rightarrow> clamp_index len e)
      in if to \<le> from then [] else take (to - from) (drop from s))"

definition isWhiteSpace :: "char \<Rightarrow> bool" where
  \<comment> \<open>the white space and line terminators of ECMAScript that lie below U+0100\<close>
  "isWhiteSpace c =
     (c = CHR 0x09 \<or> c = CHR 0x0A \<or> c = CHR 0x0B \<or> c = CHR 0x0C \<or> c = CHR 0x0D \<or>
      c = CHR 0x20 \<or> c = CHR 0xA0)"

definition trim :: "string \<Rightarrow> string" where
  "trim s = rev (dropWhile isWhiteSpace (rev (dropWhile isWhiteSpace s)))"

fun starts_with :: "string \<Rightarrow> string \<Rightarrow> bool" where
  "starts_with s [] = True"
| "starts_with [] (p # ps) = False"
| "starts_with (c # cs) (p # ps) = (c = p \<and> starts_with cs ps)"

text \<open>\<^verbatim>\<open>String.prototype.includes(searchString)\<close>: the search string occurs somewhere.\<close>

fun str_includes :: "string \<Rightarrow> string \<Rightarrow> bool" where
  "str_includes [] p = (p = [])"
| "str_includes (c # cs) p = (starts_with (c # cs) p \<or> str_includes cs p)"

definition digit_char :: "nat \<Rightarrow> char" where
  "digit_char d = ''0123456789'' ! d"

definition is_digit :: "char \<Rightarrow> bool" where
  "is_digit c = (c \<in> set ''0123456789'')"

text \<open>The decimal digits of a natural number, most significant first; \<open>0\<close> is \<open>''0''\<close>.\<close>

function show_nat :: "nat \<Rightarrow> string" where
  "show_nat n = (if n < 10 then [digit_char n] else show_nat (n div 10) @ [digit_char (n mod 10)])"
  by pat_completeness auto
termination
  by (relation "measure id") auto

declare show_nat.simps [simp del]

section \<open>Numbers\<close>

text \<open>
  A JavaScript \<^verbatim>\<open>number\<close> is an IEEE double. The model keeps the three kinds of value
  the code can tell apart, \<open>NaN\<close>, the two infinities and the finite numbers, and takes a
  finite number as the rational it denotes. The two zeros are one. Multiplication and
  division round their exact result to the nearest double, to the even one on a tie, and
  overflow to an infinity, as the machine does.
\<close>

datatype number = NaN | PosInfinity | NegInfinity | Num rat

fun isNaN :: "number \<Rightarrow> bool" where
  "isNaN NaN = True"
| "isNaN _ = False"

text \<open>The comparisons \<^verbatim>\<open><\<close>, \<^verbatim>\<open><=\<close>, \<^verbatim>\<open>>=\<close>, \<^verbatim>\<open>>\<close> and \<^verbatim>\<open>===\<close>: every comparison with \<open>NaN\<close> is false.\<close>

fun num_less :: "number \<Rightarrow> number \<Rightarrow> bool" where
  "num_less NaN _ = False"
| "num_less _ NaN = False"
| "num_less (Num a) (Num b) = (a < b)"
| "num_less PosInfinity _ = False"
| "num_less _ NegInfinity = False"
| "num_less _ PosInfinity = True"
| "num_less NegInfinity _ = True"

fun strict_eq :: "number \<Rightarrow> number \<Rightarrow> bool" where
  "strict_eq NaN _ = False"
| "strict_eq _ NaN = False"
| "strict_eq a b = (a = b)"

definition num_le :: "number \<Rightarrow> number \<Rightarrow> bool" where
  "num_le a b = (num_less a b \<or> strict_eq a b)"

definition num_greater :: "number \<Rightarrow> number \<Rightarrow> bool" where
  "num_greater a b = num_less b a"

definition num_ge :: "number \<Rightarrow> number \<Rightarrow> bool" where
  "num_ge a b = num_le b a"

fun num_sign :: "number \<Rightarrow> int" where
  "num_sign NaN = 0"
| "num_sign PosInfinity = 1"
| "num_sign NegInfinity = - 1"
| "num_sign (Num a) = (if a < 0 then - 1 else if a = 0 then 0 else 1)"

definition inf_of_sign :: "int \<Rightarrow> number" where
  "inf_of_sign s = (if 0 < s then PosInfinity else if s < 0 then NegInfinity else NaN)"

text \<open>
  Rounding a rational to a double. \<open>ilog2 q\<close> is the exponent of a positive \<open>q\<close>, the
  integer \<open>e\<close> with \<open>2^e \<le> q < 2^(e+1)\<close>. A double has 53 significant bits and its
  exponent is at least \<open>-1022\<close>, so the doubles next to \<open>q\<close> are the multiples of
  \<open>2^(max e (-1022) - 52)\<close>; the nearest one is taken, the even multiple on a tie, and a
  result of \<open>2^1024\<close> or more is an infinity.
\<close>

definition ilog2 :: "rat \<Rightarrow> int" where
  "ilog2 q =
     (case quotient_of q of
        (a, b) \<Rightarrow> (let d = bitlen a - bitlen b in if 2 powi d \<le> q then d else d - 1))"

definition round_half_even :: "rat \<Rightarrow> int" where
  "round_half_even x =
     (let f = \<lfloor>x\<rfloor>; r = x - of_int f
      in if r < 1 / 2 then f else if 1 / 2 < r then f + 1 else if even f then f else f + 1)"

definition round_double :: "rat \<Rightarrow> number" where
  "round_double q =
     (if q = 0 then Num 0
      else
        (let a = \<bar>q\<bar>;
             e = max (ilog2 a) (- 1022);
             ulp = 2 powi (e - 52);
             r = of_int (round_half_even (a / ulp)) * ulp
         in if 2 powi 1024 \<le> r then (if q < 0 then NegInfinity else PosInfinity)
            else Num (if q < 0 then - r else r)))"

text \<open>
  \<^verbatim>\<open>a * b\<close> and \<^verbatim>\<open>a / b\<close>. An infinity times zero and the quotient of two infinities
  or of two zeros are \<open>NaN\<close>; a nonzero number divided by zero is an infinity (zero taken
  as positive, the model having one zero).
\<close>

fun num_times :: "number \<Rightarrow> number \<Rightarrow> number" where
  "num_times NaN _ = NaN"
| "num_times _ NaN = NaN"
| "num_times (Num a) (Num b) = round_double (a * b)"
| "num_times a b = inf_of_sign (num_sign a * num_sign b)"

fun num_divide :: "number \<Rightarrow> number \<Rightarrow> number" where
  "num_divide NaN _ = NaN"
| "num_divide _ NaN = NaN"
| "num_divide (Num a) (Num b) =
     (if b = 0 then inf_of_sign (num_sign (Num a)) else round_double (a / b))"
| "num_divide (Num a) _ = Num 0"
| "num_divide a (Num b) = inf_of_sign (num_sign a * (if b < 0 then - 1 else 1))"
| "num_divide _ _ = NaN"

text \<open>
  \<^verbatim>\<open>Number.prototype.toString()\<close> (ECMAScript, Number::toString with radix 10). An integer
  of magnitude below \<open>10^21\<close> is written with all its digits. For every other finite
  number the digits are the shortest decimal that reads back as the same double, which
  depends on the binary representation: the function \<open>repr\<close> stands for that part.
\<close>

definition Number_toString :: "(rat \<Rightarrow> string) \<Rightarrow> number \<Rightarrow> string" where
  "Number_toString repr x =
     (case x of
        NaN \<Rightarrow> ''NaN''
      | PosInfinity \<Rightarrow> ''Infinity''
      | NegInfinity \<Rightarrow> ''-Infinity''
      | Num q \<Rightarrow>
          if of_int \<lfloor>q\<rfloor> = q \<and> \<bar>q\<bar> < 10 ^ 21
          then (if q < 0 then ''-'' else []) @ show_nat (nat \<bar>\<lfloor>q\<rfloor>\<bar>)
          else repr q)"

text \<open>
  \<^verbatim>\<open>Number.prototype.toFixed(fractionDigits)\<close> (ECMAScript): a value that is not finite is
  written by \<open>Number_toString\<close>, and so is a magnitude of \<open>10^21\<close> or more; below that the
  magnitude is rounded to the nearest multiple of \<open>10^(-f)\<close>, the larger one on a tie,
  and written with exactly \<open>f\<close> digits after the point. Every call of the source passes
  a literal 2, 4 or 6, so the range check on \<open>f\<close> is left out.
\<close>

text \<open>The digits of \<open>n / 10^f\<close>: those of \<open>n\<close>, filled with zeros on the left up to \<open>f + 1\<close>
  digits, with the point before the last \<open>f\<close> of them.\<close>

definition fixed_digits :: "nat \<Rightarrow> nat \<Rightarrow> string" where
  "fixed_digits n f =
     (let m = show_nat n;
          m = (if length m \<le> f then replicate (f + 1 - length m) CHR ''0'' @ m else m);
          k = length m
      in if f \<noteq> 0 then take (k - f) m @ ''.'' @ drop (k - f) m else m)"

definition toFixed :: "(rat \<Rightarrow> string) \<Rightarrow> number \<Rightarrow> nat \<Rightarrow> string" where
  "toFixed repr x f =
     (case x of
        Num q \<Rightarrow>
          (let s = (if q < 0 then ''-'' else []);
               a = \<bar>q\<bar>
           in if 10 ^ 21 \<le> a then s @ Number_toString repr (Num a)
              else s @ fixed_digits (nat \<lfloor>a * 10 ^ f + 1 / 2\<rfloor>) f)
      | _ \<Rightarrow> Number_toString repr x)"

text \<open>
  A string with exactly \<open>d\<close> digits after a decimal point: an optional minus sign, one
  digit or more, the point, \<open>d\<close> digits.
\<close>

definition fixed_decimal :: "nat \<Rightarrow> string \<Rightarrow> bool" where
  "fixed_decimal d s =
     (let body = (case s of [] \<Rightarrow> [] | c # cs \<Rightarrow> if c = CHR ''-'' then cs else s);
          k = length body - Suc d
      in Suc d < length body \<and> list_all is_digit (take k body) \<and> body ! k = CHR ''.''
         \<and> list_all is_digit (drop (Suc k) body))"

text \<open>The SDK's constant: the number of lamports (base units) in one SOL (display unit).\<close>

definition LAMPORTS_PER_SOL :: number where
  "LAMPORTS_PER_SOL = Num 1000000000"

section \<open>Formatting utilities (src/lib/utils.ts and the facade module)\<close>

text \<open>
  \<^verbatim>\<open>formatAddress(address: string, chars = 4)\<close>: the second argument is \<open>None\<close> when
  the caller leaves it out.
\<close>

definition formatAddress :: "string \<Rightarrow> int option \<Rightarrow> string" where
  "formatAddress address chars' =
     (let chars = (case chars' of None \<Rightarrow> 4 | Some c \<Rightarrow> c)
      in if address = [] then []
         else slice address 0 (Some chars) @ ''...'' @ slice address (- chars) None)"

definition formatPublicKey :: "string \<Rightarrow> int option \<Rightarrow> string" where
  "formatPublicKey publicKey chars' =
     (let chars = (case chars' of None \<Rightarrow> 4 | Some c \<Rightarrow> c)
      in if publicKey = [] then []
         else slice publicKey 0 (Some chars) @ ''...'' @ slice publicKey (- chars) None)"

datatype cluster = Mainnet_beta | Devnet | Testnet

fun cluster_name :: "cluster \<Rightarrow> string" where
  "cluster_name Mainnet_beta = ''mainnet-beta''"
| "cluster_name Devnet = ''devnet''"
| "cluster_name Testnet = ''testnet''"

definition getExplorerUrl :: "string \<Rightarrow> cluster option \<Rightarrow> string" where
  "getExplorerUrl signature cluster' =
     (let cluster = (case cluster' of None \<Rightarrow> Mainnet_beta | Some c \<Rightarrow> c);
          baseUrl = (if cluster = Mainnet_beta then ''https://explorer.solana.com''
                     else ''https://explorer.solana.com?cluster='' @ cluster_name cluster)
      in baseUrl @ ''/tx/'' @ signature)"

definition getAccountExplorerUrl :: "string \<Rightarrow> cluster option \<Rightarrow> string" where
  "getAccountExplorerUrl address cluster' =
     (let cluster = (case cluster' of None \<Rightarrow> Mainnet_beta | Some c \<Rightarrow> c);
          baseUrl = (if cluster = Mainnet_beta then ''https://explorer.solana.com''
                     else ''https://explorer.solana.com?cluster='' @ cluster_name cluster)
      in baseUrl @ ''/account/'' @ address)"


text \<open>\<^verbatim>\<open>formatBalance\<close> of the balance display.\<close>

definition formatBalance :: "(rat \<Rightarrow> string) \<Rightarrow> number \<Rightarrow> string" where
  "formatBalance repr balance =
     (if strict_eq balance (Num 0) then ''0.00''
      else if num_less balance (Num (1 / 1000)) then toFixed repr balance 6
      else if num_less balance (Num 1) then toFixed repr balance 4
      else toFixed repr balance 2)"



section \<open>Transaction list: one fetched record\<close>

text \<open>
  What the callback of \<^verbatim>\<open>fetchTransactions\<close> reads of a parsed transaction. Balances
  and the fee are lamport counts, integers; \<^verbatim>\<open>meta\<close> may be null, and so may its token
  balances. An instruction carries the string form of its program id when it has a
  \<^verbatim>\<open>programId\<close> property.
\<close>

record token_balance =
  accountIndex :: int
  mint :: string

text \<open>The \<^verbatim>\<open>err\<close> of a transaction's meta is null, a string or an object; the code tests
  it for truthiness, and of these only null and the empty string are falsy.\<close>

datatype tx_error = ErrText string | ErrObject string

fun truthy_err :: "tx_error option \<Rightarrow> bool" where
  "truthy_err None = False"
| "truthy_err (Some (ErrText s)) = (s \<noteq> [])"
| "truthy_err (Some (ErrObject _)) = True"

record tx_meta =
  preBalances :: "int list"
  postBalances :: "int list"
  meta_fee :: int
  preTokenBalances :: "token_balance list option"
  postTokenBalances :: "token_balance list option"
  meta_err :: "tx_error option"

record instruction =
  programId :: "string option"

record parsed_tx =
  meta :: "tx_meta option"
  instructions :: "instruction list"

record sig_info =
  sig_signature :: string
  sig_slot :: int
  sig_blockTime :: "int option"

datatype tx_status = Success | Failed

datatype tx_type = Sent | Received | Swap | Stake | Unknown

record Transaction =
  tx_signature :: string
  tx_slot :: int
  tx_blockTime :: "int option"
  tx_fee :: rat
  tx_status :: tx_status
  tx_type :: tx_type
  tx_amount :: rat
  tx_token :: string
  tx_from :: "string option"
  tx_to :: "string option"

text \<open>\<^verbatim>\<open>balances[0] || 0\<close>: a missing first entry reads as 0.\<close>

definition first_or_zero :: "int list \<Rightarrow> int" where
  "first_or_zero bs = (case bs of [] \<Rightarrow> 0 | b # _ \<Rightarrow> b)"

definition hasStakeInstruction :: "instruction list \<Rightarrow> bool" where
  "hasStakeInstruction ixs =
     list_ex (\<lambda>ix. case programId ix of None \<Rightarrow> False | Some p \<Rightarrow> str_includes p ''Stake'') ixs"

text \<open>
  The callback that \<^verbatim>\<open>fetchTransactions\<close> maps over the fetched transactions:
  \<open>publicKey\<close> is the string form of the wallet's key, \<open>signature\<close> the entry of the
  signature list the callback pairs with the transaction. The assignments to
  \<^verbatim>\<open>type\<close>, \<^verbatim>\<open>amount\<close> and \<^verbatim>\<open>token\<close> are in the order of the source, a later one
  overwriting an earlier one. The amount and the fee of the record are kept as the exact
  quotients by \<open>10^9\<close>; the double that the code holds is the one nearest to them.
\<close>

text \<open>The locals \<^verbatim>\<open>balanceChange\<close>, \<^verbatim>\<open>fee\<close> and \<^verbatim>\<open>tokenTransfers\<close> of the callback.\<close>

definition balanceChange_of :: "parsed_tx \<Rightarrow> int" where
  "balanceChange_of tx =
     (let preBalance = (case meta tx of None \<Rightarrow> 0 | Some m \<Rightarrow> first_or_zero (preBalances m));
          postBalance = (case meta tx of None \<Rightarrow> 0 | Some m \<Rightarrow> first_or_zero (postBalances m))
      in postBalance - preBalance)"

definition fee_of :: "parsed_tx \<Rightarrow> int" where
  "fee_of tx = (case meta tx of None \<Rightarrow> 0 | Some m \<Rightarrow> meta_fee m)"

definition tokenTransfers_of :: "parsed_tx \<Rightarrow> token_balance list" where
  "tokenTransfers_of tx =
     (case meta tx of None \<Rightarrow> []
      | Some m \<Rightarrow> (case preTokenBalances m of None \<Rightarrow> [] | Some ts \<Rightarrow> ts))"

definition toTransaction :: "string \<Rightarrow> sig_info \<Rightarrow> parsed_tx \<Rightarrow> Transaction" where
  "toTransaction publicKey signature tx =
     (let balanceChange = balanceChange_of tx;
          fee = fee_of tx;
          type0 = Unknown;
          amount0 = of_int \<bar>balanceChange\<bar> / 1000000000;
          token0 = ''SOL'';
          type1 = (if 0 < balanceChange then Received
                   else if balanceChange < 0 then Sent else type0);
          amount1 = (if 0 < balanceChange then amount0
                     else if balanceChange < 0 then of_int \<bar>balanceChange + fee\<bar> / 1000000000
                     else amount0);
          tokenTransfers = tokenTransfers_of tx;
          type2 = (if 0 < length tokenTransfers then Swap else type1);
          token2 = (if 0 < length tokenTransfers then ''TOKEN'' else token0);
          type3 = (if hasStakeInstruction (instructions tx) then Stake else type2)
      in \<lparr> tx_signature = sig_signature signature,
           tx_slot = sig_slot signature,
           tx_blockTime = sig_blockTime signature,
           tx_fee = of_int fee / 1000000000,
           tx_status = (case meta tx of None \<Rightarrow> Success
                        | Some m \<Rightarrow> if truthy_err (meta_err m) then Failed else Success),
           tx_type = type3,
           tx_amount = amount1,
           tx_token = token2,
           tx_from = Some publicKey,
           tx_to = Some ''Unknown'' \<rparr>)"

section \<open>The network and the diagnostic stream\<close>

text \<open>
  What a \<^verbatim>\<open>catch\<close> can receive: an \<^verbatim>\<open>Error\<close> object with its message, or any other
  thrown value.
\<close>

datatype fault = JsError string | Thrown string

record transfer_tx =
  fromPubkey :: string
  toPubkey :: string
  lamports :: number
  recentBlockhash :: "string option"
  feePayer :: "string option"

record account_info =
  acc_lamports :: number
  acc_owner :: string

record epoch_info =
  epoch :: int
  slotIndex :: int

datatype request =
    GetBalance string
  | GetAccountInfo string
  | SendTransaction transfer_tx "string list"
  | WalletSendTransaction transfer_tx
  | ConfirmTransaction string
  | GetLatestBlockhash
  | GetSignaturesForAddress string int
  | GetTransaction string
  | GetSlot
  | GetEpochInfo

text \<open>
  The state the code acts on from outside: the requests sent to the ledger service so
  far, in order, and the lines written by \<^verbatim>\<open>console.error\<close> (a label and the value
  logged with it).
\<close>

record world =
  rpc_calls :: "request list"
  console :: "(string \<times> fault) list"

text \<open>
  The SDK's \<^verbatim>\<open>Connection\<close>. Each method answers with a value or throws; the answer may
  depend on the number of requests sent before it, so that asking again can give
  another answer. The answer of \<^verbatim>\<open>confirmTransaction\<close> is the error of the transaction,
  if it has one; no caller here reads it. \<^verbatim>\<open>getTransaction\<close> also gives the time at
  which its promise settles: several of them are in flight at once in
  \<^verbatim>\<open>getTransactionHistory\<close>.
\<close>

record connection =
  conn_getBalance :: "nat \<Rightarrow> string \<Rightarrow> fault + number"
  conn_getAccountInfo :: "nat \<Rightarrow> string \<Rightarrow> fault + account_info option"
  conn_sendTransaction :: "nat \<Rightarrow> transfer_tx \<Rightarrow> string list \<Rightarrow> fault + string"
  conn_confirmTransaction :: "nat \<Rightarrow> string \<Rightarrow> fault + string option"
  conn_getLatestBlockhash :: "nat \<Rightarrow> fault + string"
  conn_getSignaturesForAddress :: "nat \<Rightarrow> string \<Rightarrow> int \<Rightarrow> fault + sig_info list"
  conn_getTransaction :: "nat \<Rightarrow> string \<Rightarrow> nat \<times> (fault + string option)"
  conn_getSlot :: "nat \<Rightarrow> fault + number"
  conn_getEpochInfo :: "nat \<Rightarrow> fault + epoch_info"

text \<open>
  What the code uses of the language and the SDK besides the connection:
  \<^verbatim>\<open>Number(string)\<close>, the constructor \<^verbatim>\<open>new PublicKey(string)\<close>, which throws on a
  malformed address, and \<^verbatim>\<open>SystemProgram.transfer\<close>, which can throw on its arguments.
\<close>

record platform =
  js_Number :: "string \<Rightarrow> number"
  new_PublicKey :: "string \<Rightarrow> fault + string"
  SystemProgram_transfer :: "string \<Rightarrow> string \<Rightarrow> number \<Rightarrow> fault + transfer_tx"

text \<open>
  An asynchronous computation that may throw: from a world to a result, \<open>Inl\<close> the thrown
  value, and the world after it.
\<close>

type_synonym 'a io = "world \<Rightarrow> (fault + 'a) \<times> world"

definition io_return :: "'a \<Rightarrow> 'a io" where
  "io_return x w = (Inr x, w)"

definition io_throw :: "fault \<Rightarrow> 'a io" where
  "io_throw e w = (Inl e, w)"

definition io_bind :: "'a io \<Rightarrow> ('a \<Rightarrow> 'b io) \<Rightarrow> 'b io" where
  "io_bind m k w = (case m w of (Inl e, w') \<Rightarrow> (Inl e, w') | (Inr x, w') \<Rightarrow> k x w')"

text \<open>\<^verbatim>\<open>try { m } catch (error) { h(error) }\<close>\<close>

definition io_catch :: "'a io \<Rightarrow> (fault \<Rightarrow> 'a io) \<Rightarrow> 'a io" where
  "io_catch m h w = (case m w of (Inl e, w') \<Rightarrow> h e w' | (Inr x, w') \<Rightarrow> (Inr x, w'))"

text \<open>A value that is thrown when it is \<open>Inl\<close>, with no request sent.\<close>

definition io_of :: "fault + 'a \<Rightarrow> 'a io" where
  "io_of r w = (r, w)"

text \<open>Sending a request and awaiting its answer.\<close>

definition io_call :: "request \<Rightarrow> (nat \<Rightarrow> fault + 'a) \<Rightarrow> 'a io" where
  "io_call r respond w = (respond (length (rpc_calls w)), w\<lparr>rpc_calls := rpc_calls w @ [r]\<rparr>)"

text \<open>Sending a request without awaiting it: the result is the pending promise.\<close>

definition io_start :: "request \<Rightarrow> (nat \<Rightarrow> 'p) \<Rightarrow> 'p io" where
  "io_start r respond w = (Inr (respond (length (rpc_calls w))), w\<lparr>rpc_calls := rpc_calls w @ [r]\<rparr>)"

definition console_error :: "string \<Rightarrow> fault \<Rightarrow> unit io" where
  "console_error label e w = (Inr (), w\<lparr>console := console w @ [(label, e)]\<rparr>)"





section \<open>The free helper of src/lib/utils.ts\<close>

definition getBalance :: "connection \<Rightarrow> string \<Rightarrow> number io" where
  "getBalance connection publicKey =
     io_catch
       (io_call (GetBalance publicKey) (\<lambda>n. conn_getBalance connection n publicKey))
       (\<lambda>error. io_bind (console_error ''Error fetching balance:'' error) (\<lambda>_. io_return (Num 0)))"

section \<open>The connection facade: \<^verbatim>\<open>SolanaService\<close>\<close>

definition SolanaService_getBalance :: "connection \<Rightarrow> string \<Rightarrow> number io" where
  "SolanaService_getBalance connection publicKey =
     io_catch
       (io_bind (io_call (GetBalance publicKey) (\<lambda>n. conn_getBalance connection n publicKey))
          (\<lambda>balance. io_return (num_divide balance LAMPORTS_PER_SOL)))
       (\<lambda>error. io_bind (console_error ''Error fetching balance:'' error)
          (\<lambda>_. io_throw (JsError ''Failed to fetch balance'')))"











section \<open>The transfer form\<close>

datatype status_type = StatusSuccess | StatusError

record form_status =
  st_type :: "status_type option"
  st_message :: string

text \<open>The state of the form component, and what it reads of the wallet.\<close>

record send_form =
  recipient :: string
  amount :: string
  isLoading :: bool
  status :: form_status

record wallet =
  connected :: bool
  publicKey :: "string option"
  wallet_sendTransaction :: "nat \<Rightarrow> transfer_tx \<Rightarrow> fault + string"

definition error_status :: "string \<Rightarrow> form_status" where
  "error_status msg = \<lparr> st_type = Some StatusError, st_message = msg \<rparr>"

text \<open>\<^verbatim>\<open>validateInputs\<close>: the verdict and the form with the status it set.\<close>

definition validateInputs :: "platform \<Rightarrow> send_form \<Rightarrow> bool \<times> send_form" where
  "validateInputs js form =
     (if trim (recipient form) = []
      then (False, form\<lparr>status := error_status ''Recipient address is required''\<rparr>)
      else if trim (amount form) = [] \<or> isNaN (js_Number js (amount form))
              \<or> num_le (js_Number js (amount form)) (Num 0)
      then (False, form\<lparr>status := error_status ''Please enter a valid amount''\<rparr>)
      else (case new_PublicKey js (recipient form) of
              Inl _ \<Rightarrow> (False, form\<lparr>status := error_status ''Invalid recipient address''\<rparr>)
            | Inr _ \<Rightarrow> (True, form)))"

text \<open>The body of the \<^verbatim>\<open>try\<close> of \<^verbatim>\<open>handleSendSol\<close>, up to the confirmed signature.\<close>

definition send_body :: "platform \<Rightarrow> connection \<Rightarrow> wallet \<Rightarrow> string \<Rightarrow> send_form \<Rightarrow> string io" where
  "send_body js connection wal sender form =
     io_bind (io_of (new_PublicKey js (recipient form)))
       (\<lambda>recipientPubkey.
          let lamports' = num_times (js_Number js (amount form)) LAMPORTS_PER_SOL
          in io_bind (io_call (GetBalance sender) (\<lambda>n. conn_getBalance connection n sender))
               (\<lambda>balance.
                  if num_less balance lamports' then io_throw (JsError ''Insufficient balance'')
                  else
                    io_bind (io_of (SystemProgram_transfer js sender recipientPubkey lamports'))
                      (\<lambda>transaction.
                         io_bind (io_call GetLatestBlockhash
                                    (\<lambda>n. conn_getLatestBlockhash connection n))
                           (\<lambda>blockhash.
                              let transaction' =
                                    transaction\<lparr>recentBlockhash := Some blockhash,
                                                feePayer := Some sender\<rparr>
                              in io_bind (io_call (WalletSendTransaction transaction')
                                            (\<lambda>n. wallet_sendTransaction wal n transaction'))
                                   (\<lambda>signature.
                                      io_bind (io_call (ConfirmTransaction signature)
                                                 (\<lambda>n. conn_confirmTransaction connection n signature))
                                        (\<lambda>_. io_return signature))))))"

text \<open>\<^verbatim>\<open>handleSendSol\<close>: from the form and the world to the form and the world after it.\<close>

definition handleSendSol ::
  "platform \<Rightarrow> connection \<Rightarrow> wallet \<Rightarrow> send_form \<times> world \<Rightarrow> send_form \<times> world" where
  "handleSendSol js connection wal fw =
     (case fw of (form, w) \<Rightarrow>
        (case (if connected wal then publicKey wal else None) of
           None \<Rightarrow> (form\<lparr>status := error_status ''Please connect your wallet first''\<rparr>, w)
         | Some sender \<Rightarrow>
             (case validateInputs js form of
                (False, form') \<Rightarrow> (form', w)
              | (True, form') \<Rightarrow>
                  (let form1 = form'\<lparr>isLoading := True,
                                     status := \<lparr> st_type = None, st_message = [] \<rparr>\<rparr>
                   in case send_body js connection wal sender form w of
                        (Inr signature, w') \<Rightarrow>
                          (form1\<lparr>status :=
                                   \<lparr> st_type = Some StatusSuccess,
                                     st_message = ''Successfully sent '' @ amount form
                                        @ '' SOL! Transaction: ''
                                        @ slice signature 0 (Some 8) @ ''...'' \<rparr>,
                                 recipient := [], amount := [], isLoading := False\<rparr>, w')
                      | (Inl error, w') \<Rightarrow>
                          (form1\<lparr>status :=
                                   error_status (case error of JsError m \<Rightarrow> m
                                                 | Thrown _ \<Rightarrow> ''Transaction failed''),
                                 isLoading := False\<rparr>,
                           snd (console_error ''Transaction failed:'' error w'))))))"

section \<open>Outcomes named in the statements\<close>



section \<open>Concrete inputs\<close>

text \<open>Three fetched transactions: a stake instruction with token balances and a falling
  balance, a plain transfer, and a fee payer that gets back less than the fee.\<close>

definition stake_tx :: parsed_tx where
  "stake_tx = \<lparr> meta = Some \<lparr> preBalances = [5000000], postBalances = [2000000], meta_fee = 5000,
                   preTokenBalances = Some [\<lparr> accountIndex = 1, mint = ''So11'' \<rparr>],
                   postTokenBalances = None, meta_err = None \<rparr>,
                 instructions = [\<lparr> programId = Some ''Stake11111111111111111111111111111111111111'' \<rparr>] \<rparr>"



definition sample_sig :: sig_info where
  "sample_sig = \<lparr> sig_signature = ''5Vf'', sig_slot = 7, sig_blockTime = None \<rparr>"

text \<open>Five more, with several accounts and instructions: the first account's balance
  rises; it falls while the last account's rises; token balances before the transaction
  and a rising balance; no change of the first balance; a stake program that is neither
  the first instruction nor named by a prefix; and token balances after the transaction
  only.\<close>

definition received_tx :: parsed_tx where
  "received_tx = \<lparr> meta = Some \<lparr> preBalances = [1000, 70000], postBalances = [3000, 20000],
                     meta_fee = 5000, preTokenBalances = None, postTokenBalances = None,
                     meta_err = None \<rparr>,
                   instructions = [\<lparr> programId = Some ''11111111111111111111111111111111'' \<rparr>,
                                   \<lparr> programId = Some ''MemoSq4gqABAXKb96qnH8TysNcWxMyWCqXgDLGmfcHr'' \<rparr>] \<rparr>"

definition paid_tx :: parsed_tx where
  "paid_tx = \<lparr> meta = Some \<lparr> preBalances = [5000000, 10], postBalances = [2995000, 2000010],
                     meta_fee = 5000, preTokenBalances = Some [], postTokenBalances = None,
                     meta_err = None \<rparr>,
               instructions = [\<lparr> programId = Some ''11111111111111111111111111111111'' \<rparr>,
                               \<lparr> programId = None \<rparr>] \<rparr>"

definition swap_tx :: parsed_tx where
  "swap_tx = \<lparr> meta = Some \<lparr> preBalances = [1000, 900], postBalances = [3000, 100],
                     meta_fee = 5000,
                     preTokenBalances = Some [\<lparr> accountIndex = 1, mint = ''So11'' \<rparr>,
                                              \<lparr> accountIndex = 2, mint = ''EPjF'' \<rparr>],
                     postTokenBalances = None, meta_err = None \<rparr>,
               instructions = [\<lparr> programId = Some ''TokenkegQfeZyiNwAJbNbGKPFXCWuBvf9Ss623VQ5DA'' \<rparr>] \<rparr>"

definition idle_tx :: parsed_tx where
  "idle_tx = \<lparr> meta = Some \<lparr> preBalances = [500, 1], postBalances = [500, 9],
                     meta_fee = 0, preTokenBalances = None, postTokenBalances = None,
                     meta_err = None \<rparr>,
               instructions = [\<lparr> programId = Some ''11111111111111111111111111111111'' \<rparr>] \<rparr>"

definition late_stake_tx :: parsed_tx where
  "late_stake_tx = \<lparr> meta = Some \<lparr> preBalances = [1000, 0], postBalances = [3000, 0],
                     meta_fee = 5000,
                     preTokenBalances = Some [\<lparr> accountIndex = 1, mint = ''So11'' \<rparr>],
                     postTokenBalances = None, meta_err = None \<rparr>,
                     instructions = [\<lparr> programId = Some ''11111111111111111111111111111111'' \<rparr>,
                                     \<lparr> programId = Some ''SPoolStake1111111111111111111111111111111111'' \<rparr>] \<rparr>"

definition post_only_tx :: parsed_tx where
  "post_only_tx = \<lparr> meta = Some \<lparr> preBalances = [5000000, 0], postBalances = [2955720, 2039280],
                     meta_fee = 5000, preTokenBalances = Some [],
                     postTokenBalances = Some [\<lparr> accountIndex = 1, mint = ''EPjF'' \<rparr>],
                     meta_err = None \<rparr>,
                    instructions = [\<lparr> programId = Some ''TokenkegQfeZyiNwAJbNbGKPFXCWuBvf9Ss623VQ5DA'' \<rparr>] \<rparr>"

definition other_sig :: sig_info where
  "other_sig = \<lparr> sig_signature = ''3Kx'', sig_slot = 6, sig_blockTime = Some 1700000000 \<rparr>"

definition world0 :: world where
  "world0 = \<lparr> rpc_calls = [], console = [] \<rparr>"


text \<open>A connection that answers every request, one that throws on every request, one
  whose confirmation throws, and one whose second transaction lookup throws.\<close>

definition up_connection :: connection where
  "up_connection =
     \<lparr> conn_getBalance = (\<lambda>n pk. Inr (Num 0)),
       conn_getAccountInfo = (\<lambda>n pk. Inr None),
       conn_sendTransaction = (\<lambda>n tx signers. Inr ''sig1''),
       conn_confirmTransaction = (\<lambda>n s. Inr None),
       conn_getLatestBlockhash = (\<lambda>n. Inr ''hash1''),
       conn_getSignaturesForAddress = (\<lambda>n pk limit. Inr [sample_sig, other_sig]),
       conn_getTransaction = (\<lambda>n s. (n, Inr (Some ''tx''))),
       conn_getSlot = (\<lambda>n. Inr (Num 7)),
       conn_getEpochInfo = (\<lambda>n. Inr \<lparr> epoch = 1, slotIndex = 7 \<rparr>) \<rparr>"

definition down_connection :: connection where
  "down_connection =
     \<lparr> conn_getBalance = (\<lambda>n pk. Inl (Thrown ''down'')),
       conn_getAccountInfo = (\<lambda>n pk. Inl (Thrown ''down'')),
       conn_sendTransaction = (\<lambda>n tx signers. Inl (Thrown ''down'')),
       conn_confirmTransaction = (\<lambda>n s. Inl (Thrown ''down'')),
       conn_getLatestBlockhash = (\<lambda>n. Inl (Thrown ''down'')),
       conn_getSignaturesForAddress = (\<lambda>n pk limit. Inl (Thrown ''down'')),
       conn_getTransaction = (\<lambda>n s. (n, Inl (Thrown ''down''))),
       conn_getSlot = (\<lambda>n. Inl (Thrown ''down'')),
       conn_getEpochInfo = (\<lambda>n. Inl (Thrown ''down'')) \<rparr>"



text \<open>\<^verbatim>\<open>Number.prototype.toString\<close> at two numbers that are written with an exponent.\<close>

definition sample_repr :: "rat \<Rightarrow> string" where
  "sample_repr q =
     (case map_of [(10 ^ 21, ''1e+21''), (1 / 10000000, ''1e-7'')] q of
        Some s \<Rightarrow> s | None \<Rightarrow> [])"

text \<open>
  The language and the SDK at a few strings, for running the model: \<^verbatim>\<open>Number\<close> on the
  strings of the table (every other string is taken as not numeric), the system program's
  address as the one well-formed address, and a transfer instruction that is built for a
  whole number of lamports and throws otherwise.
\<close>

definition sample_platform :: platform where
  "sample_platform =
     \<lparr> js_Number =
         (\<lambda>s. case map_of [(''Infinity'', PosInfinity), (''1.5'', Num (3 / 2)), (''0'', Num 0),
                             (''-2'', Num (- 2))] s of
                 Some v \<Rightarrow> v | None \<Rightarrow> NaN),
       new_PublicKey =
         (\<lambda>s. if s = ''11111111111111111111111111111111'' then Inr s
               else Inl (JsError ''Invalid public key input'')),
       SystemProgram_transfer =
         (\<lambda>a b l. case l of
                     Num q \<Rightarrow>
                       if of_int \<lfloor>q\<rfloor> = q
                       then Inr \<lparr> fromPubkey = a, toPubkey = b, lamports = l,
                                  recentBlockhash = None, feePayer = None \<rparr>
                       else Inl (JsError ''not an integer'')
                   | _ \<Rightarrow> Inl (JsError ''not an integer'')) \<rparr>"

text \<open>A connected wallet, and the form as the user filled it in.\<close>

definition sample_wallet :: wallet where
  "sample_wallet =
     \<lparr> connected = True, publicKey = Some ''me'',
       wallet_sendTransaction = (\<lambda>n tx. Inr ''sig1'') \<rparr>"

definition filled_form :: "string \<Rightarrow> string \<Rightarrow> send_form" where
  "filled_form r a =
     \<lparr> recipient = r, amount = a, isLoading = False,
       status = \<lparr> st_type = None, st_message = [] \<rparr> \<rparr>"

section \<open>Truncating an address\<close>

lemma slice_prefix: "0 \<le> c \<Longrightarrow> slice s 0 (Some c) = take (nat c) s"
  by (auto simp: slice_def clamp_index_def Let_def min_def)

lemma slice_suffix: "0 < c \<Longrightarrow> slice s (- c) None = drop (length s - nat c) s"
  by (auto simp: slice_def clamp_index_def Let_def max_def nat_diff_distrib' nat_add_distrib)

lemma formatAddress_shape:
  assumes "address \<noteq> []" and "0 < chars"
  shows "formatAddress address (Some chars) =
           take (nat chars) address @ ''...'' @ drop (length address - nat chars) address"
  using assms by (simp add: formatAddress_def slice_prefix slice_suffix)

lemma formatPublicKey_eq: "formatPublicKey = formatAddress"
  by (intro ext) (simp add: formatPublicKey_def formatAddress_def)

lemma formatAddress_example: "formatAddress ''ABCDEFGH'' (Some 4) = ''ABCD...EFGH''"
  by (simp add: formatAddress_def slice_def clamp_index_def)

lemma formatAddress_default: "formatAddress ''ABCDEFGH'' None = ''ABCD...EFGH''"
  by (simp add: formatAddress_def slice_def clamp_index_def)

text \<open>
  C8, as the code has it. For a non-empty address shorter than twice \<open>chars\<close>,
  \<open>formatAddress\<close> (and \<open>formatPublicKey\<close>, the same function) returns, with no error
  branch, the first \<open>min chars (length address)\<close> characters of the address, three dots,
  and its last \<open>min chars (length address)\<close> characters. When the address has \<open>chars\<close>
  characters or more, the first \<open>chars\<close> characters of the result are the first \<open>chars\<close>
  characters of the address and the last \<open>chars\<close> characters of the result are its last
  \<open>chars\<close> characters. The empty address gives the empty string.
\<close>

theorem formatAddress_short:
  assumes "address \<noteq> []" and "int (length address) < 2 * chars"
  shows "formatAddress address (Some chars) =
           take (nat chars) address @ ''...'' @ drop (length address - nat chars) address
         \<and> formatPublicKey address (Some chars) = formatAddress address (Some chars)
         \<and> (nat chars \<le> length address \<longrightarrow>
              take (nat chars) (formatAddress address (Some chars)) = take (nat chars) address
              \<and> drop (length (formatAddress address (Some chars)) - nat chars)
                   (formatAddress address (Some chars))
                 = drop (length address - nat chars) address)
         \<and> formatAddress [] (Some chars) = [] \<and> formatPublicKey [] (Some chars) = []
         \<and> formatAddress ''ABCDEFGH'' (Some 4) = ''ABCD...EFGH''"
proof -
  from assms have pos: "0 < chars" by (cases address) auto
  have shape: "formatAddress address (Some chars) =
           take (nat chars) address @ ''...'' @ drop (length address - nat chars) address"
    by (rule formatAddress_shape [OF assms(1) pos])
  have ends: "take (nat chars) (formatAddress address (Some chars)) = take (nat chars) address
              \<and> drop (length (formatAddress address (Some chars)) - nat chars)
                   (formatAddress address (Some chars))
                 = drop (length address - nat chars) address"
    if le: "nat chars \<le> length address"
  proof -
    have l1: "length (take (nat chars) address) = nat chars" using le by simp
    have l2: "length (drop (length address - nat chars) address) = nat chars" using le by simp
    show ?thesis unfolding shape using l1 l2 by simp
  qed
  have empty: "formatAddress [] (Some chars) = []" by (simp add: formatAddress_def)
  show ?thesis using shape ends empty formatAddress_example by (simp add: formatPublicKey_eq)
qed

theorem formatAddress_short_witness:
  "formatAddress ''ABCDEF'' (Some 4) = ''ABCD...CDEF''
   \<and> take 4 (formatAddress ''ABCDEF'' (Some 4)) = ''ABCD''
   \<and> drop (length (formatAddress ''ABCDEF'' (Some 4)) - 4) (formatAddress ''ABCDEF'' (Some 4)) = ''CDEF''"
  using formatAddress_short [of "''ABCDEF''" 4] by simp

text \<open>
  C8 as stated fails when the address is shorter than \<open>chars\<close> itself: for \<open>''AB''\<close> and
  \<open>chars = 4\<close> the result is \<open>''AB...AB''\<close>, whose first four characters are \<open>''AB..''\<close>,
  not characters of the address only.
\<close>

theorem formatAddress_short_counterexample:
  "formatAddress ''AB'' (Some 4) = ''AB...AB''
   \<and> take 4 (formatAddress ''AB'' (Some 4)) \<noteq> take 4 ''AB''"
  by (simp add: formatAddress_def slice_def clamp_index_def)

section \<open>Explorer URLs\<close>

lemma explorer_url_mainnet:
  "getExplorerUrl signature None = ''https://explorer.solana.com/tx/'' @ signature"
  "getExplorerUrl signature (Some Mainnet_beta) = ''https://explorer.solana.com/tx/'' @ signature"
  "getAccountExplorerUrl address None = ''https://explorer.solana.com/account/'' @ address"
  "getAccountExplorerUrl address (Some Mainnet_beta) = ''https://explorer.solana.com/account/'' @ address"
  by (simp_all add: getExplorerUrl_def getAccountExplorerUrl_def)

lemma explorer_url_other:
  "c \<noteq> Mainnet_beta \<Longrightarrow> getExplorerUrl signature (Some c)
     = ''https://explorer.solana.com?cluster='' @ cluster_name c @ ''/tx/'' @ signature"
  "c \<noteq> Mainnet_beta \<Longrightarrow> getAccountExplorerUrl address (Some c)
     = ''https://explorer.solana.com?cluster='' @ cluster_name c @ ''/account/'' @ address"
  by (simp_all add: getExplorerUrl_def getAccountExplorerUrl_def)

text \<open>
  C4: for \<open>devnet\<close> and \<open>testnet\<close> the builders put the query parameter between the host
  and the path, where the claim has it appended to the URL of the default cluster: the
  signature \<open>5Vf\<close> on \<open>devnet\<close> gives \<open>https://explorer.solana.com?cluster=devnet/tx/5Vf\<close>
  and not \<open>https://explorer.solana.com/tx/5Vf?cluster=devnet\<close>, and the account builder
  does the same.
\<close>

theorem explorer_url_devnet:
  "getExplorerUrl ''5Vf'' (Some Devnet) = ''https://explorer.solana.com?cluster=devnet/tx/5Vf''
   \<and> getExplorerUrl ''5Vf'' (Some Devnet) \<noteq> ''https://explorer.solana.com/tx/5Vf?cluster=devnet''
   \<and> getAccountExplorerUrl ''9xQ'' (Some Testnet) = ''https://explorer.solana.com?cluster=testnet/account/9xQ''
   \<and> getAccountExplorerUrl ''9xQ'' (Some Testnet) \<noteq> ''https://explorer.solana.com/account/9xQ?cluster=testnet''"
  by (simp add: getExplorerUrl_def getAccountExplorerUrl_def)

section \<open>Rounding to a double\<close>

lemma powi_nat: "0 \<le> k \<Longrightarrow> (2::rat) powi k = 2 ^ nat k"
  by (simp add: power_int_def)

lemma bitlen_powi:
  assumes "0 < a"
  shows "(2::rat) powi (bitlen a - 1) \<le> of_int a" and "of_int a < (2::rat) powi (bitlen a)"
proof -
  have b: "2 ^ nat (bitlen a - 1) \<le> a" "a < 2 ^ nat (bitlen a)"
    using bitlen_bounds [OF assms] by auto
  have pos: "0 < bitlen a"
    using assms bitlen_nonneg [of a] bitlen_eq_zero_iff [of a] by linarith
  have "(of_int (2 ^ nat (bitlen a - 1)) :: rat) \<le> of_int a" using b(1) by (simp only: of_int_le_iff)
  then show "(2::rat) powi (bitlen a - 1) \<le> of_int a" using pos by (simp add: powi_nat)
  have "(of_int a :: rat) < of_int (2 ^ nat (bitlen a))" using b(2) by (simp only: of_int_less_iff)
  then show "of_int a < (2::rat) powi (bitlen a)" using pos by (simp add: powi_nat)
qed

lemma powi_two_diff: "(2::rat) powi (m - n) = 2 powi m / 2 powi n"
  by (simp add: power_int_diff)

lemma ilog2_bounds:
  assumes "0 < q"
  shows "2 powi (ilog2 q) \<le> q" and "q < 2 powi (ilog2 q + 1)"
proof -
  obtain a b where qa: "quotient_of q = (a, b)" by (cases "quotient_of q")
  have bpos: "0 < b" using quotient_of_denom_pos [OF qa] .
  have qeq: "q = of_int a / of_int b" using quotient_of_div [OF qa] .
  have apos: "0 < a" using assms bpos qeq by (simp add: zero_less_divide_iff)
  let ?d = "bitlen a - bitlen b"
  have ub: "q < 2 powi (?d + 1)"
  proof -
    have "of_int a < (2::rat) powi (bitlen a)" by (rule bitlen_powi [OF apos])
    moreover have "(2::rat) powi (bitlen b - 1) \<le> of_int b" by (rule bitlen_powi [OF bpos])
    moreover have "(0::rat) < 2 powi (bitlen b - 1)" by simp
    ultimately have "of_int a / of_int b < (2::rat) powi (bitlen a) / 2 powi (bitlen b - 1)"
      using bpos apos by (intro frac_less) auto
    also have "\<dots> = 2 powi (?d + 1)"
      by (simp add: powi_two_diff [symmetric] algebra_simps)
    finally show ?thesis unfolding qeq .
  qed
  have lb: "2 powi (?d - 1) \<le> q"
  proof -
    have "(2::rat) powi (bitlen a - 1) \<le> of_int a" by (rule bitlen_powi [OF apos])
    moreover have "of_int b < (2::rat) powi (bitlen b)" by (rule bitlen_powi [OF bpos])
    ultimately have "(2::rat) powi (bitlen a - 1) / 2 powi (bitlen b) \<le> of_int a / of_int b"
      using bpos apos by (intro frac_le) auto
    moreover have "(2::rat) powi (bitlen a - 1) / 2 powi (bitlen b) = 2 powi (?d - 1)"
      by (simp add: powi_two_diff [symmetric] algebra_simps)
    ultimately show ?thesis unfolding qeq by simp
  qed
  have il: "ilog2 q = (if 2 powi ?d \<le> q then ?d else ?d - 1)"
    by (simp add: ilog2_def qa Let_def)
  show "2 powi (ilog2 q) \<le> q" using lb by (simp add: il)
  show "q < 2 powi (ilog2 q + 1)" using ub by (auto simp: il not_le)
qed

lemma powi_two_mono: "m \<le> n \<Longrightarrow> (2::rat) powi m \<le> 2 powi n"
  by (rule power_int_increasing) auto

lemma powi_two_less_iff: "(2::rat) powi m < 2 powi n \<longleftrightarrow> m < n"
proof
  assume l: "(2::rat) powi m < 2 powi n"
  show "m < n"
  proof (rule ccontr)
    assume "\<not> m < n"
    then have "(2::rat) powi n \<le> 2 powi m" by (intro powi_two_mono) simp
    with l show False by simp
  qed
next
  assume "m < n"
  then show "(2::rat) powi m < 2 powi n" by (intro power_int_strict_increasing) auto
qed

lemma ilog2_unique:
  assumes "2 powi e \<le> q" and "q < 2 powi (e + 1)"
  shows "ilog2 q = e"
proof -
  have pos: "0 < q" using assms(1) by (rule less_le_trans [rotated]) simp
  note b = ilog2_bounds [OF pos]
  have "(2::rat) powi e < 2 powi (ilog2 q + 1)" using assms(1) b(2) by simp
  then have 1: "e < ilog2 q + 1" by (simp only: powi_two_less_iff)
  have "(2::rat) powi (ilog2 q) < 2 powi (e + 1)" using assms(2) b(1) by simp
  then have 2: "ilog2 q < e + 1" by (simp only: powi_two_less_iff)
  from 1 2 show ?thesis by simp
qed


lemma round_half_even_error: "\<bar>of_int (round_half_even x) - x\<bar> \<le> 1 / 2"
proof -
  have "of_int \<lfloor>x\<rfloor> \<le> x" "x < of_int \<lfloor>x\<rfloor> + 1" by linarith+
  then show ?thesis by (auto simp: round_half_even_def Let_def abs_le_iff)
qed

lemma round_half_even_unique:
  assumes "\<bar>x - of_int n\<bar> < 1 / 2"
  shows "round_half_even x = n"
proof -
  have "\<bar>(of_int (round_half_even x) :: rat) - of_int n\<bar> < 1"
    using round_half_even_error [of x] assms by linarith
  then have "\<bar>(of_int (round_half_even x - n) :: rat)\<bar> < 1" by simp
  then have "\<bar>round_half_even x - n\<bar> < 1" by (simp only: of_int_abs [symmetric] of_int_less_1_iff)
  then show ?thesis by simp
qed

lemma round_double_unfold:
  assumes "q \<noteq> 0" and "a = \<bar>q\<bar>" and "e = max (ilog2 a) (- 1022)"
    and "r = of_int (round_half_even (a / 2 powi (e - 52))) * 2 powi (e - 52)"
  shows "round_double q =
           (if (2::rat) powi 1024 \<le> r then (if q < 0 then NegInfinity else PosInfinity)
            else Num (if q < 0 then - r else r))"
  unfolding assms(2,3,4) round_double_def Let_def using assms(1) by simp

lemma round_double_eq:
  assumes "(2::rat) powi e \<le> q" and "q < 2 powi (e + 1)" and "- 1022 \<le> e"
    and "\<bar>q / 2 powi (e - 52) - of_int n\<bar> < 1 / 2"
    and "of_int n * (2::rat) powi (e - 52) < 2 powi 1024"
  shows "round_double q = Num (of_int n * 2 powi (e - 52))"
proof -
  have pos: "0 < q" using assms(1) by (rule less_le_trans [rotated]) simp
  have a: "q = \<bar>q\<bar>" using pos by simp
  have il: "ilog2 q = e" by (rule ilog2_unique [OF assms(1,2)])
  have mx: "e = max (ilog2 q) (- 1022)" using assms(3) il by simp
  have rn: "round_half_even (q / 2 powi (e - 52)) = n"
    by (rule round_half_even_unique [OF assms(4)])
  have r: "of_int n * (2::rat) powi (e - 52)
             = of_int (round_half_even (q / 2 powi (e - 52))) * 2 powi (e - 52)"
    unfolding rn ..
  have nz: "q \<noteq> 0" and nn: "\<not> q < 0" using pos by simp_all
  have nb: "\<not> (2::rat) powi 1024 \<le> of_int n * 2 powi (e - 52)"
    using assms(5) by (simp only: not_le)
  show ?thesis
    unfolding round_double_unfold [OF nz a mx r] using nb nn by (simp only: if_False)
qed




lemma round_double_eqI:
  assumes "(2::rat) powi e \<le> q" and "q < 2 powi (e + 1)" and "- 1022 \<le> e"
    and "\<bar>q / 2 powi (e - 52) - of_int n\<bar> < 1 / 2"
    and "of_int n * (2::rat) powi (e - 52) < 2 powi 1024"
    and "d = of_int n * 2 powi (e - 52)"
  shows "round_double q = Num d"
  unfolding assms(6) by (rule round_double_eq [OF assms(1-5)])







lemma rd_1500000000: "round_double (3 / 2 * 1000000000) = Num 1500000000"
  by (rule round_double_eqI [where e = 30 and n = 6291456000000000]) simp_all

section \<open>Unit conversion\<close>




section \<open>Classifying a fetched transaction\<close>

lemma starts_with_iff: "starts_with s p \<longleftrightarrow> (\<exists>b. s = p @ b)"
  by (induction s p rule: starts_with.induct) auto

lemma str_includes_iff: "str_includes s p \<longleftrightarrow> (\<exists>a b. s = a @ p @ b)"
proof (induction s)
  case Nil
  then show ?case by auto
next
  case (Cons c cs)
  show ?case
  proof
    assume "str_includes (c # cs) p"
    then consider "starts_with (c # cs) p" | "str_includes cs p" by auto
    then show "\<exists>a b. c # cs = a @ p @ b"
    proof cases
      case 1
      then obtain b where "c # cs = p @ b" unfolding starts_with_iff by blast
      then have "c # cs = [] @ p @ b" by simp
      then show ?thesis by blast
    next
      case 2
      then obtain a b where "cs = a @ p @ b" unfolding Cons.IH by blast
      then have "c # cs = (c # a) @ p @ b" by simp
      then show ?thesis by blast
    qed
  next
    assume "\<exists>a b. c # cs = a @ p @ b"
    then obtain a b where ab: "c # cs = a @ p @ b" by blast
    show "str_includes (c # cs) p"
    proof (cases a)
      case Nil
      then have "starts_with (c # cs) p" unfolding starts_with_iff using ab by auto
      then show ?thesis by simp
    next
      case (Cons x xs)
      then have "cs = xs @ p @ b" using ab by simp
      then have "str_includes cs p" unfolding Cons.IH by blast
      then show ?thesis by simp
    qed
  qed
qed

lemma hasStakeInstruction_iff:
  "hasStakeInstruction ixs \<longleftrightarrow>
     (\<exists>ix \<in> set ixs. \<exists>p. programId ix = Some p \<and> (\<exists>a b. p = a @ ''Stake'' @ b))"
  unfolding hasStakeInstruction_def list_ex_iff str_includes_iff [symmetric]
  by (auto split: option.splits)

text \<open>
  C1, as the code has it, on the fields of the fetched transaction. An instruction whose
  program id, as a string, contains \<open>Stake\<close> gives \<open>Stake\<close> whatever the balances and the
  token balances; otherwise one entry or more in \<^verbatim>\<open>preTokenBalances\<close>, the token list the
  code reads, gives \<open>Swap\<close>; otherwise the first entries of \<^verbatim>\<open>preBalances\<close> and
  \<^verbatim>\<open>postBalances\<close> (0 for an empty list) decide: \<open>Received\<close> when the balance rose,
  \<open>Sent\<close> when it fell, \<open>Unknown\<close> when it did not change. \<^verbatim>\<open>postTokenBalances\<close> has no
  part in it. With no meta the type is \<open>Stake\<close> or \<open>Unknown\<close>.
\<close>

theorem classification_precedence:
  "tx_type (toTransaction pk sig
      \<lparr> meta = Some \<lparr> preBalances = pres, postBalances = posts, meta_fee = fee,
                      preTokenBalances = ptb, postTokenBalances = qtb, meta_err = err \<rparr>,
        instructions = ixs \<rparr>)
     = (if (\<exists>ix \<in> set ixs. \<exists>p. programId ix = Some p \<and> (\<exists>a b. p = a @ ''Stake'' @ b)) then Stake
        else if (\<exists>t ts. ptb = Some (t # ts)) then Swap
        else if (case pres of [] \<Rightarrow> 0 | b # _ \<Rightarrow> b) < (case posts of [] \<Rightarrow> 0 | b # _ \<Rightarrow> b)
        then Received
        else if (case posts of [] \<Rightarrow> 0 | b # _ \<Rightarrow> b) < (case pres of [] \<Rightarrow> 0 | b # _ \<Rightarrow> b)
        then Sent
        else Unknown)
   \<and> tx_type (toTransaction pk sig \<lparr> meta = None, instructions = ixs \<rparr>)
     = (if (\<exists>ix \<in> set ixs. \<exists>p. programId ix = Some p \<and> (\<exists>a b. p = a @ ''Stake'' @ b)) then Stake
        else Unknown)"
proof -
  have tok: "(0 < length (case ptb of None \<Rightarrow> [] | Some ts \<Rightarrow> ts)) = (\<exists>t ts. ptb = Some (t # ts))"
    by (cases ptb; simp) (metis list.exhaust list.distinct(1))
  show ?thesis
    unfolding hasStakeInstruction_iff [symmetric]
    using tok
    by (simp add: toTransaction_def Let_def balanceChange_of_def tokenTransfers_of_def
        first_or_zero_def)
qed


theorem classification_precedence_witness:
  "tx_type (toTransaction ''me'' sample_sig received_tx) = Received
   \<and> tx_type (toTransaction ''me'' sample_sig paid_tx) = Sent
   \<and> tx_type (toTransaction ''me'' sample_sig swap_tx) = Swap
   \<and> tx_type (toTransaction ''me'' sample_sig idle_tx) = Unknown
   \<and> tx_type (toTransaction ''me'' sample_sig late_stake_tx) = Stake
   \<and> tx_type (toTransaction ''me'' sample_sig stake_tx) = Stake
   \<and> tx_type (toTransaction ''me'' sample_sig \<lparr> meta = None, instructions = [] \<rparr>) = Unknown"
proof -
  have sys: "\<not> (\<exists>a b. ''11111111111111111111111111111111'' = a @ ''Stake'' @ b)"
    unfolding str_includes_iff [symmetric] by simp
  have memo: "\<not> (\<exists>a b. ''MemoSq4gqABAXKb96qnH8TysNcWxMyWCqXgDLGmfcHr'' = a @ ''Stake'' @ b)"
    unfolding str_includes_iff [symmetric] by simp
  have token: "\<not> (\<exists>a b. ''TokenkegQfeZyiNwAJbNbGKPFXCWuBvf9Ss623VQ5DA'' = a @ ''Stake'' @ b)"
    unfolding str_includes_iff [symmetric] by simp
  have late: "\<exists>a b. ''SPoolStake1111111111111111111111111111111111'' = a @ ''Stake'' @ b"
    unfolding str_includes_iff [symmetric] by simp
  have stake: "\<exists>a b. ''Stake11111111111111111111111111111111111111'' = a @ ''Stake'' @ b"
    unfolding str_includes_iff [symmetric] by simp
  have 1: "tx_type (toTransaction ''me'' sample_sig received_tx) = Received"
    unfolding received_tx_def
    by (rule trans [OF classification_precedence [THEN conjunct1]]) (use sys memo in simp)
  have 2: "tx_type (toTransaction ''me'' sample_sig paid_tx) = Sent"
    unfolding paid_tx_def
    by (rule trans [OF classification_precedence [THEN conjunct1]]) (use sys in simp)
  have 3: "tx_type (toTransaction ''me'' sample_sig swap_tx) = Swap"
    unfolding swap_tx_def
    by (rule trans [OF classification_precedence [THEN conjunct1]]) (use token in simp)
  have 4: "tx_type (toTransaction ''me'' sample_sig idle_tx) = Unknown"
    unfolding idle_tx_def
    by (rule trans [OF classification_precedence [THEN conjunct1]]) (use sys in simp)
  have 5: "tx_type (toTransaction ''me'' sample_sig late_stake_tx) = Stake"
    unfolding late_stake_tx_def
    by (rule trans [OF classification_precedence [THEN conjunct1]]) (use sys late in simp)
  have 6: "tx_type (toTransaction ''me'' sample_sig stake_tx) = Stake"
    unfolding stake_tx_def
    by (rule trans [OF classification_precedence [THEN conjunct1]]) (use stake in simp)
  have 7: "tx_type (toTransaction ''me'' sample_sig \<lparr> meta = None, instructions = [] \<rparr>) = Unknown"
    by (rule trans [OF classification_precedence [THEN conjunct2]]) simp
  show ?thesis using 1 2 3 4 5 6 7 by blast
qed

text \<open>
  C1 as stated fails for token-balance entries that are in \<^verbatim>\<open>postTokenBalances\<close> only: a
  record with such an entry, a falling balance and no stake instruction is \<open>Sent\<close>, not
  \<open>Swap\<close>.
\<close>

theorem classification_precedence_counterexample:
  "postTokenBalances (the (meta post_only_tx)) = Some [\<lparr> accountIndex = 1, mint = ''EPjF'' \<rparr>]
   \<and> \<not> hasStakeInstruction (instructions post_only_tx)
   \<and> tx_type (toTransaction ''me'' sample_sig post_only_tx) = Sent
   \<and> tx_type (toTransaction ''me'' sample_sig post_only_tx) \<noteq> Swap"
  by (simp add: toTransaction_def Let_def post_only_tx_def balanceChange_of_def
      tokenTransfers_of_def first_or_zero_def hasStakeInstruction_def)




section \<open>Faults of the network\<close>

lemmas io_defs = io_return_def io_throw_def io_bind_def io_catch_def io_of_def io_call_def
  io_start_def console_error_def

text \<open>
  C10: the free helper \<open>getBalance\<close> always returns a value. When the connection throws
  \<open>e\<close>, it has sent its one request, written \<open>e\<close> to the console and returned 0, which is
  also what it returns when the connection answers 0; the facade's method throws its
  generic error on the same fault.
\<close>

theorem utils_getBalance_never_raises:
  "(\<exists>v. fst (getBalance c pk w) = Inr v)
   \<and> (conn_getBalance c (length (rpc_calls w)) pk = Inl e \<longrightarrow>
        getBalance c pk w
          = (Inr (Num 0), w\<lparr>rpc_calls := rpc_calls w @ [GetBalance pk],
                            console := console w @ [(''Error fetching balance:'', e)]\<rparr>)
        \<and> fst (SolanaService_getBalance c pk w) = Inl (JsError ''Failed to fetch balance''))
   \<and> (conn_getBalance c (length (rpc_calls w)) pk = Inl e
        \<and> conn_getBalance c' (length (rpc_calls w)) pk = Inr (Num 0) \<longrightarrow>
        fst (getBalance c pk w) = fst (getBalance c' pk w))"
  by (cases "conn_getBalance c (length (rpc_calls w)) pk")
     (simp_all add: getBalance_def SolanaService_getBalance_def io_defs)


theorem utils_getBalance_never_raises_witness:
  "getBalance down_connection ''me'' world0
     = (Inr (Num 0), \<lparr> rpc_calls = [GetBalance ''me''],
                        console = [(''Error fetching balance:'', Thrown ''down'')] \<rparr>)
   \<and> fst (getBalance down_connection ''me'' world0) = fst (getBalance up_connection ''me'' world0)
   \<and> fst (SolanaService_getBalance down_connection ''me'' world0)
       = Inl (JsError ''Failed to fetch balance'')"
proof -
  have h1: "conn_getBalance down_connection (length (rpc_calls world0)) ''me'' = Inl (Thrown ''down'')"
    by (simp add: down_connection_def)
  have h2: "conn_getBalance up_connection (length (rpc_calls world0)) ''me'' = Inr (Num 0)"
    by (simp add: up_connection_def)
  have h3: "fst (getBalance up_connection ''me'' world0) = Inr (Num 0)"
    by (simp add: getBalance_def io_defs up_connection_def)
  from utils_getBalance_never_raises [of down_connection "''me''" world0 "Thrown ''down''" up_connection]
    h1 h2 h3
  show ?thesis by (simp add: world0_def)
qed




















section \<open>Fixed-point notation\<close>

lemma digit_char_is_digit: "d < 10 \<Longrightarrow> is_digit (digit_char d)"
  unfolding is_digit_def digit_char_def by (rule nth_mem) simp

lemma show_nat_digits: "list_all is_digit (show_nat n)"
proof (induction n rule: show_nat.induct)
  case (1 n)
  show ?case
  proof (cases "n < 10")
    case True
    then show ?thesis by (simp add: show_nat.simps [of n] digit_char_is_digit)
  next
    case False
    with 1 show ?thesis by (simp add: show_nat.simps [of n] digit_char_is_digit)
  qed
qed

lemma show_nat_nonempty: "show_nat n \<noteq> []"
  by (simp add: show_nat.simps [of n])

lemma minus_not_digit: "is_digit c \<Longrightarrow> c \<noteq> CHR ''-''"
  by (auto simp: is_digit_def)

lemma fixed_decimal_unsigned:
  assumes "list_all is_digit a" "a \<noteq> []" "list_all is_digit b" "length b = d"
  shows "fixed_decimal d (a @ ''.'' @ b)"
proof -
  obtain c cs where a: "a = c # cs" using assms(2) by (cases a) auto
  have c: "c \<noteq> CHR ''-''" using assms(1) a by (simp add: minus_not_digit)
  have len: "length (a @ ''.'' @ b) - Suc d = length a" using assms(4) by simp
  have body: "(case a @ ''.'' @ b of [] \<Rightarrow> [] | c # cs \<Rightarrow> if c = CHR ''-'' then cs else a @ ''.'' @ b)
                = a @ ''.'' @ b"
    using a c by simp
  show ?thesis
    unfolding fixed_decimal_def body Let_def len
    using assms by (simp add: nth_append)
qed

lemma fixed_decimal_signed:
  assumes "list_all is_digit a" "a \<noteq> []" "list_all is_digit b" "length b = d"
  shows "fixed_decimal d (''-'' @ a @ ''.'' @ b)"
proof -
  have len: "length (a @ ''.'' @ b) - Suc d = length a" using assms(4) by simp
  have body: "(case ''-'' @ a @ ''.'' @ b of [] \<Rightarrow> []
               | c # cs \<Rightarrow> if c = CHR ''-'' then cs else ''-'' @ a @ ''.'' @ b)
                = a @ ''.'' @ b"
    by simp
  show ?thesis
    unfolding fixed_decimal_def body Let_def len
    using assms by (simp add: nth_append)
qed

lemma fixed_digits_split:
  assumes "0 < f"
  shows "\<exists>a b. fixed_digits n f = a @ ''.'' @ b \<and> list_all is_digit a \<and> a \<noteq> []
           \<and> list_all is_digit b \<and> length b = f"
proof -
  define m where "m = (if length (show_nat n) \<le> f
      then replicate (f + 1 - length (show_nat n)) CHR ''0'' @ show_nat n else show_nat n)"
  have zero: "is_digit CHR ''0''" by (simp add: is_digit_def)
  have dig: "list_all is_digit m"
    using show_nat_digits [of n] zero by (simp add: m_def list_all_iff)
  have len: "f < length m" by (simp add: m_def)
  have eq: "fixed_digits n f = take (length m - f) m @ ''.'' @ drop (length m - f) m"
    using assms by (simp add: fixed_digits_def Let_def m_def)
  have "list_all is_digit (take (length m - f) m)" "list_all is_digit (drop (length m - f) m)"
    using dig by (auto simp: list_all_iff dest: in_set_takeD in_set_dropD)
  moreover have "take (length m - f) m \<noteq> []" using len by (cases m) auto
  moreover have "length (drop (length m - f) m) = f" using len by simp
  ultimately show ?thesis using eq by blast
qed

lemma toFixed_below:
  "\<bar>q\<bar> < 10 ^ 21 \<Longrightarrow>
     toFixed repr (Num q) f = (if q < 0 then ''-'' else []) @ fixed_digits (nat \<lfloor>\<bar>q\<bar> * 10 ^ f + 1 / 2\<rfloor>) f"
  by (simp add: toFixed_def Let_def)

lemma toFixed_fixed_decimal:
  assumes "\<bar>q\<bar> < 10 ^ 21" and "0 < f"
  shows "fixed_decimal f (toFixed repr (Num q) f)"
proof -
  from fixed_digits_split [OF assms(2), of "nat \<lfloor>\<bar>q\<bar> * 10 ^ f + 1 / 2\<rfloor>"]
  obtain a b where ab: "fixed_digits (nat \<lfloor>\<bar>q\<bar> * 10 ^ f + 1 / 2\<rfloor>) f = a @ ''.'' @ b"
      "list_all is_digit a" "a \<noteq> []" "list_all is_digit b" "length b = f"
    by blast
  have eq: "toFixed repr (Num q) f = (if q < 0 then ''-'' else []) @ a @ ''.'' @ b"
    unfolding toFixed_below [OF assms(1)] ab(1) ..
  show ?thesis
  proof (cases "q < 0")
    case True
    then have "toFixed repr (Num q) f = ''-'' @ a @ ''.'' @ b" unfolding eq by simp
    then show ?thesis using fixed_decimal_signed [OF ab(2-5)] by (simp only:)
  next
    case False
    then have "toFixed repr (Num q) f = a @ ''.'' @ b" unfolding eq by simp
    then show ?thesis using fixed_decimal_unsigned [OF ab(2-5)] by (simp only:)
  qed
qed

section \<open>Formatting a balance and a number\<close>

text \<open>
  C5, as the code has it: the balance 0 is written \<open>0.00\<close>; a positive balance below
  0.001 is written by \<open>toFixed\<close> with 6 digits after the point, a balance from 0.001 and
  below 1 with 4, and a balance from 1 and below \<open>10^21\<close> with 2; each of these results
  is a string with that many digits after the point.
\<close>

theorem formatBalance_tiers:
  "formatBalance repr (Num 0) = ''0.00''
   \<and> (0 < q \<and> q < 1 / 1000 \<longrightarrow>
        formatBalance repr (Num q) = toFixed repr (Num q) 6
        \<and> fixed_decimal 6 (formatBalance repr (Num q)))
   \<and> (1 / 1000 \<le> q \<and> q < 1 \<longrightarrow>
        formatBalance repr (Num q) = toFixed repr (Num q) 4
        \<and> fixed_decimal 4 (formatBalance repr (Num q)))
   \<and> (1 \<le> q \<and> q < 10 ^ 21 \<longrightarrow>
        formatBalance repr (Num q) = toFixed repr (Num q) 2
        \<and> fixed_decimal 2 (formatBalance repr (Num q)))"
proof (intro conjI impI)
  show "formatBalance repr (Num 0) = ''0.00''"
    by (simp add: formatBalance_def)
next
  assume h: "0 < q \<and> q < 1 / 1000"
  then show "formatBalance repr (Num q) = toFixed repr (Num q) 6"
    by (simp add: formatBalance_def)
  moreover have "\<bar>q\<bar> < 10 ^ 21" using h by simp
  ultimately show "fixed_decimal 6 (formatBalance repr (Num q))"
    using toFixed_fixed_decimal [of q 6 repr] by simp
next
  assume h: "1 / 1000 \<le> q \<and> q < 1"
  then show "formatBalance repr (Num q) = toFixed repr (Num q) 4"
    by (simp add: formatBalance_def)
  moreover have "\<bar>q\<bar> < 10 ^ 21" using h by simp
  ultimately show "fixed_decimal 4 (formatBalance repr (Num q))"
    using toFixed_fixed_decimal [of q 4 repr] by simp
next
  assume h: "1 \<le> q \<and> q < 10 ^ 21"
  then show "formatBalance repr (Num q) = toFixed repr (Num q) 2"
    by (simp add: formatBalance_def)
  moreover have "\<bar>q\<bar> < 10 ^ 21" using h by simp
  ultimately show "fixed_decimal 2 (formatBalance repr (Num q))"
    using toFixed_fixed_decimal [of q 2 repr] by simp
qed

theorem formatBalance_tiers_witness:
  "fixed_decimal 6 (formatBalance sample_repr (Num (5 / 10000)))
   \<and> formatBalance sample_repr (Num (5 / 10000)) = ''0.000500''
   \<and> fixed_decimal 4 (formatBalance sample_repr (Num (1 / 2)))
   \<and> formatBalance sample_repr (Num (1 / 2)) = ''0.5000''
   \<and> fixed_decimal 2 (formatBalance sample_repr (Num 5))
   \<and> formatBalance sample_repr (Num 5) = ''5.00''"
proof -
  have a: "formatBalance sample_repr (Num (5 / 10000)) = ''0.000500''" by code_simp
  have b: "formatBalance sample_repr (Num (1 / 2)) = ''0.5000''" by code_simp
  have c: "formatBalance sample_repr (Num 5) = ''5.00''" by code_simp
  have p1: "0 < (5 / 10000 :: rat) \<and> (5 / 10000 :: rat) < 1 / 1000" by simp
  have p2: "1 / 1000 \<le> (1 / 2 :: rat) \<and> (1 / 2 :: rat) < 1" by simp
  have p3: "1 \<le> (5 :: rat) \<and> (5 :: rat) < 10 ^ 21" by simp
  have "fixed_decimal 6 (formatBalance sample_repr (Num (5 / 10000)))"
    using formatBalance_tiers [of sample_repr "5 / 10000"] p1 by blast
  moreover have "fixed_decimal 4 (formatBalance sample_repr (Num (1 / 2)))"
    using formatBalance_tiers [of sample_repr "1 / 2"] p2 by blast
  moreover have "fixed_decimal 2 (formatBalance sample_repr (Num 5))"
    using formatBalance_tiers [of sample_repr 5] p3 by blast
  ultimately show ?thesis using a b c by blast
qed

text \<open>
  C5 as stated fails for a balance of \<open>10^21\<close>, which is at least 1: there \<open>toFixed\<close> gives
  up the fixed notation and the result is \<open>1e+21\<close>, not a string with two digits after a
  point.
\<close>

theorem formatBalance_tiers_counterexample:
  "num_ge (Num (10 ^ 21)) (Num 1)
   \<and> formatBalance sample_repr (Num (10 ^ 21)) = ''1e+21''
   \<and> \<not> fixed_decimal 2 (formatBalance sample_repr (Num (10 ^ 21)))"
proof -
  have a: "formatBalance sample_repr (Num (10 ^ 21)) = ''1e+21''"
    by (simp add: formatBalance_def toFixed_def Number_toString_def sample_repr_def)
  have b: "\<not> fixed_decimal 2 ''1e+21''"
    by (simp add: fixed_decimal_def is_digit_def)
  show ?thesis unfolding a using b by (simp add: num_ge_def num_le_def)
qed














section \<open>Validating a transfer\<close>

lemma positive_number:
  "(\<not> isNaN x \<and> \<not> num_le x (Num 0)) = num_greater x (Num 0)"
  by (cases x) (auto simp: num_le_def num_greater_def)

lemma validateInputs_verdict:
  "fst (validateInputs js form) =
     (trim (recipient form) \<noteq> [] \<and> trim (amount form) \<noteq> []
      \<and> num_greater (js_Number js (amount form)) (Num 0)
      \<and> (\<exists>k. new_PublicKey js (recipient form) = Inr k))"
  unfolding positive_number [symmetric]
  by (cases "new_PublicKey js (recipient form)") (auto simp: validateInputs_def)

lemma handleSendSol_rejected:
  assumes "\<not> fst (validateInputs js form)"
  shows "snd (handleSendSol js c wal (form, w)) = w"
    and "connected wal \<Longrightarrow> publicKey wal = Some sender \<Longrightarrow>
         fst (handleSendSol js c wal (form, w)) = snd (validateInputs js form)"
  using assms
  by (cases "validateInputs js form"; cases "publicKey wal"; simp add: handleSendSol_def)+

text \<open>
  C2, as the code has it. \<open>validateInputs\<close> stops at the first check that fails, in this
  order: the recipient has something besides white space, else \<open>Recipient address is
  required\<close>; the amount has something besides white space and \<open>Number(amount)\<close> is a
  number above 0, the positive infinity included, else \<open>Please enter a valid amount\<close>; the
  recipient is accepted by the \<open>PublicKey\<close> constructor, else \<open>Invalid recipient
  address\<close>. It accepts exactly when the three checks pass. When it rejects,
  \<open>handleSendSol\<close> sends no request: the world is unchanged and, the wallet being
  connected, the form shows the status that the validation set.
\<close>

theorem validation_order:
  "(trim (recipient form) = [] \<longrightarrow>
      validateInputs js form
        = (False, form\<lparr>status := error_status ''Recipient address is required''\<rparr>))
   \<and> (trim (recipient form) \<noteq> []
       \<and> (trim (amount form) = [] \<or> \<not> num_greater (js_Number js (amount form)) (Num 0)) \<longrightarrow>
      validateInputs js form
        = (False, form\<lparr>status := error_status ''Please enter a valid amount''\<rparr>))
   \<and> (trim (recipient form) \<noteq> [] \<and> trim (amount form) \<noteq> []
       \<and> num_greater (js_Number js (amount form)) (Num 0)
       \<and> new_PublicKey js (recipient form) = Inl e \<longrightarrow>
      validateInputs js form
        = (False, form\<lparr>status := error_status ''Invalid recipient address''\<rparr>))
   \<and> (fst (validateInputs js form) =
        (trim (recipient form) \<noteq> [] \<and> trim (amount form) \<noteq> []
         \<and> num_greater (js_Number js (amount form)) (Num 0)
         \<and> (\<exists>k. new_PublicKey js (recipient form) = Inr k)))
   \<and> (\<not> fst (validateInputs js form) \<longrightarrow>
        snd (handleSendSol js c wal (form, w)) = w
        \<and> (connected wal \<and> publicKey wal = Some sender \<longrightarrow>
             fst (handleSendSol js c wal (form, w)) = snd (validateInputs js form)))"
proof (intro conjI impI)
  assume "trim (recipient form) = []"
  then show "validateInputs js form
        = (False, form\<lparr>status := error_status ''Recipient address is required''\<rparr>)"
    by (simp add: validateInputs_def)
next
  assume "trim (recipient form) \<noteq> []
       \<and> (trim (amount form) = [] \<or> \<not> num_greater (js_Number js (amount form)) (Num 0))"
  then show "validateInputs js form
        = (False, form\<lparr>status := error_status ''Please enter a valid amount''\<rparr>)"
    unfolding positive_number [symmetric] by (auto simp: validateInputs_def)
next
  assume "trim (recipient form) \<noteq> [] \<and> trim (amount form) \<noteq> []
       \<and> num_greater (js_Number js (amount form)) (Num 0)
       \<and> new_PublicKey js (recipient form) = Inl e"
  then show "validateInputs js form
        = (False, form\<lparr>status := error_status ''Invalid recipient address''\<rparr>)"
    unfolding positive_number [symmetric] by (auto simp: validateInputs_def)
next
  show "fst (validateInputs js form) =
        (trim (recipient form) \<noteq> [] \<and> trim (amount form) \<noteq> []
         \<and> num_greater (js_Number js (amount form)) (Num 0)
         \<and> (\<exists>k. new_PublicKey js (recipient form) = Inr k))"
    by (rule validateInputs_verdict)
next
  assume r: "\<not> fst (validateInputs js form)"
  show "snd (handleSendSol js c wal (form, w)) = w"
    by (rule handleSendSol_rejected(1) [OF r])
  assume "connected wal \<and> publicKey wal = Some sender"
  then show "fst (handleSendSol js c wal (form, w)) = snd (validateInputs js form)"
    using handleSendSol_rejected(2) [OF r] by blast
qed

theorem validation_order_witness:
  "validateInputs sample_platform (filled_form ''  '' ''1.5'')
     = (False, (filled_form ''  '' ''1.5'')\<lparr>status := error_status ''Recipient address is required''\<rparr>)
   \<and> validateInputs sample_platform (filled_form ''11111111111111111111111111111111'' ''abc'')
     = (False, (filled_form ''11111111111111111111111111111111'' ''abc'')
                 \<lparr>status := error_status ''Please enter a valid amount''\<rparr>)
   \<and> validateInputs sample_platform (filled_form ''11111111111111111111111111111111'' ''0'')
     = (False, (filled_form ''11111111111111111111111111111111'' ''0'')
                 \<lparr>status := error_status ''Please enter a valid amount''\<rparr>)
   \<and> validateInputs sample_platform (filled_form ''not-a-key'' ''1.5'')
     = (False, (filled_form ''not-a-key'' ''1.5'')
                 \<lparr>status := error_status ''Invalid recipient address''\<rparr>)
   \<and> fst (validateInputs sample_platform (filled_form ''11111111111111111111111111111111'' ''1.5''))
   \<and> handleSendSol sample_platform up_connection sample_wallet
        (filled_form ''not-a-key'' ''1.5'', world0)
     = ((filled_form ''not-a-key'' ''1.5'')\<lparr>status := error_status ''Invalid recipient address''\<rparr>,
        world0)
   \<and> rpc_calls (snd (handleSendSol sample_platform up_connection sample_wallet
        (filled_form ''11111111111111111111111111111111'' ''1.5'', world0))) = [GetBalance ''me'']"
proof -
  let ?key = "''11111111111111111111111111111111''"
  have t1: "trim (recipient (filled_form ''  '' ''1.5'')) = []"
    by (simp add: filled_form_def trim_def isWhiteSpace_def)
  have t2: "trim (recipient (filled_form ?key a)) \<noteq> []" for a
    by (simp add: filled_form_def trim_def isWhiteSpace_def)
  have t3: "trim (recipient (filled_form ''not-a-key'' a)) \<noteq> []" for a
    by (simp add: filled_form_def trim_def isWhiteSpace_def)
  have a1: "\<not> num_greater (js_Number sample_platform (amount (filled_form r ''abc''))) (Num 0)" for r
    by (simp add: filled_form_def sample_platform_def num_greater_def)
  have a2: "\<not> num_greater (js_Number sample_platform (amount (filled_form r ''0''))) (Num 0)" for r
    by (simp add: filled_form_def sample_platform_def num_greater_def)
  have a3: "trim (amount (filled_form r ''1.5'')) \<noteq> []
            \<and> num_greater (js_Number sample_platform (amount (filled_form r ''1.5''))) (Num 0)" for r
    by (simp add: filled_form_def sample_platform_def num_greater_def trim_def isWhiteSpace_def)
  have k1: "new_PublicKey sample_platform (recipient (filled_form ''not-a-key'' a))
              = Inl (JsError ''Invalid public key input'')" for a
    by (simp add: filled_form_def sample_platform_def)
  have k2: "new_PublicKey sample_platform (recipient (filled_form ?key a)) = Inr ?key" for a
    by (simp add: filled_form_def sample_platform_def)
  note v = validation_order [where js = sample_platform and c = up_connection and wal = sample_wallet
      and w = world0 and sender = "''me''"]
  have w1: "connected sample_wallet \<and> publicKey sample_wallet = Some ''me''"
    by (simp add: sample_wallet_def)
  have 1: "validateInputs sample_platform (filled_form ''  '' ''1.5'')
     = (False, (filled_form ''  '' ''1.5'')\<lparr>status := error_status ''Recipient address is required''\<rparr>)"
    using v [of "filled_form ''  '' ''1.5''"] t1 by blast
  have 2: "validateInputs sample_platform (filled_form ?key ''abc'')
     = (False, (filled_form ?key ''abc'')\<lparr>status := error_status ''Please enter a valid amount''\<rparr>)"
    using v [of "filled_form ?key ''abc''"] t2 a1 by blast
  have 3: "validateInputs sample_platform (filled_form ?key ''0'')
     = (False, (filled_form ?key ''0'')\<lparr>status := error_status ''Please enter a valid amount''\<rparr>)"
    using v [of "filled_form ?key ''0''"] t2 a2 by blast
  have 4: "validateInputs sample_platform (filled_form ''not-a-key'' ''1.5'')
     = (False, (filled_form ''not-a-key'' ''1.5'')\<lparr>status := error_status ''Invalid recipient address''\<rparr>)"
    using v [of "filled_form ''not-a-key'' ''1.5''" "JsError ''Invalid public key input''"] t3 a3 k1
    by blast
  have 5: "fst (validateInputs sample_platform (filled_form ?key ''1.5''))"
    using v [of "filled_form ?key ''1.5''"] t2 a3 k2 by blast
  have 6: "handleSendSol sample_platform up_connection sample_wallet
        (filled_form ''not-a-key'' ''1.5'', world0)
     = ((filled_form ''not-a-key'' ''1.5'')\<lparr>status := error_status ''Invalid recipient address''\<rparr>,
        world0)"
  proof -
    have n: "\<not> fst (validateInputs sample_platform (filled_form ''not-a-key'' ''1.5''))"
      unfolding 4 by simp
    from v [of "filled_form ''not-a-key'' ''1.5''"] n w1
    have "snd (handleSendSol sample_platform up_connection sample_wallet
                 (filled_form ''not-a-key'' ''1.5'', world0)) = world0"
      and "fst (handleSendSol sample_platform up_connection sample_wallet
                 (filled_form ''not-a-key'' ''1.5'', world0))
             = snd (validateInputs sample_platform (filled_form ''not-a-key'' ''1.5''))"
      by blast+
    then show ?thesis unfolding 4 by (simp add: prod_eq_iff)
  qed
  have 7: "rpc_calls (snd (handleSendSol sample_platform up_connection sample_wallet
        (filled_form ?key ''1.5'', world0))) = [GetBalance ''me'']"
  proof -
    have ok: "validateInputs sample_platform (filled_form ?key ''1.5'') = (True, filled_form ?key ''1.5'')"
      using a3 [of ?key] t2 [of "''1.5''"] k2 [of "''1.5''"]
      unfolding positive_number [symmetric] by (simp add: validateInputs_def)
    have body: "send_body sample_platform up_connection sample_wallet ''me'' (filled_form ?key ''1.5'') world0
                  = (Inl (JsError ''Insufficient balance''), world0\<lparr>rpc_calls := [GetBalance ''me'']\<rparr>)"
      using rd_1500000000
      by (simp add: send_body_def io_defs filled_form_def sample_platform_def up_connection_def
          world0_def LAMPORTS_PER_SOL_def Let_def)
    show ?thesis
      by (simp add: handleSendSol_def ok body w1 console_error_def)
  qed
  show ?thesis using 1 2 3 4 5 6 7 by blast
qed

text \<open>
  C2 as stated asks for a finite amount; the amount \<open>Infinity\<close>, with a well-formed
  recipient, passes the validation.
\<close>

theorem validation_order_counterexample:
  "fst (validateInputs sample_platform (filled_form ''11111111111111111111111111111111'' ''Infinity''))
   \<and> js_Number sample_platform ''Infinity'' = PosInfinity"
  by (simp add: validateInputs_def filled_form_def sample_platform_def trim_def isWhiteSpace_def
      num_le_def)

end
